theory Spec2Isabelle
  imports Complex_Main "HOL-Library.Sublist"
begin

section \<open>Python values and strings\<close>

text \<open>
  Strings are ASCII strings: a \<^typ>\<open>char\<close> is one byte, and the character tests below are
  those of Python's \<open>str\<close> methods on ASCII text. A JSON value stored under \<open>cik_str\<close> is a
  number or a string, so the values of a record are \<open>pyval\<close>s. Every exception the modelled
  functions can raise is a constructor of \<open>py_error\<close>.
\<close>

datatype py_error = TypeError | ValueError | IndexError | EOFError | JSONDecodeError | RequestException

datatype pyval = PyInt int | PyStr string

definition lower_char :: "char \<Rightarrow> char" where
  "lower_char c =
     (case map_of (zip ''ABCDEFGHIJKLMNOPQRSTUVWXYZ'' ''abcdefghijklmnopqrstuvwxyz'') c of
        None \<Rightarrow> c
      | Some d \<Rightarrow> d)"

definition lower :: "string \<Rightarrow> string" where
  "lower s = map lower_char s"

definition is_digit_char :: "char \<Rightarrow> bool" where
  "is_digit_char c = (let n = (of_char c :: nat) in 48 \<le> n \<and> n \<le> 57)"

definition is_alpha_char :: "char \<Rightarrow> bool" where
  "is_alpha_char c = (let n = (of_char c :: nat) in (65 \<le> n \<and> n \<le> 90) \<or> (97 \<le> n \<and> n \<le> 122))"

definition is_space_char :: "char \<Rightarrow> bool" where
  "is_space_char c = (let n = (of_char c :: nat) in (9 \<le> n \<and> n \<le> 13) \<or> (28 \<le> n \<and> n \<le> 32))"

definition isdigit :: "string \<Rightarrow> bool" where
  "isdigit s = (s \<noteq> [] \<and> list_all is_digit_char s)"

definition isalpha :: "string \<Rightarrow> bool" where
  "isalpha s = (s \<noteq> [] \<and> list_all is_alpha_char s)"

definition isalnum :: "string \<Rightarrow> bool" where
  "isalnum s = (s \<noteq> [] \<and> list_all (\<lambda>c. is_alpha_char c \<or> is_digit_char c) s)"

definition strip :: "string \<Rightarrow> string" where
  "strip s = rev (dropWhile is_space_char (rev (dropWhile is_space_char s)))"

text \<open>\<open>t in s\<close> on strings: \<open>t\<close> occurs in \<open>s\<close> as a contiguous run.\<close>

fun str_in :: "string \<Rightarrow> string \<Rightarrow> bool" where
  "str_in t [] = (t = [])"
| "str_in t (c # cs) = (prefix t (c # cs) \<or> str_in t cs)"

text \<open>\<open>str(n)\<close> for an integer: its decimal digits, with a minus sign when negative.\<close>

fun str_nat :: "nat \<Rightarrow> string" where
  "str_nat n = (if n < 10 then [''0123456789'' ! n]
                else str_nat (n div 10) @ [''0123456789'' ! (n mod 10)])"

declare str_nat.simps [simp del]

definition str_int :: "int \<Rightarrow> string" where
  "str_int i = (if i < 0 then CHR ''-'' # str_nat (nat (- i)) else str_nat (nat i))"

fun py_str :: "pyval \<Rightarrow> string" where
  "py_str (PyInt i) = str_int i"
| "py_str (PyStr s) = s"

section \<open>Dictionaries\<close>

text \<open>
  A Python \<open>dict\<close> keeps its keys in insertion order, and \<open>items()\<close> iterates in that order:
  a dictionary is an association list with one pair per key. \<open>d.get(k, default)\<close> is
  \<open>dict_get\<close>, and \<open>d.setdefault(k, []).append(v)\<close> is \<open>setdefault_append\<close>.
\<close>

type_synonym entry = "(string \<times> pyval) list"

type_synonym index = "(string \<times> entry list) list"

definition dict_get :: "('k \<times> 'v) list \<Rightarrow> 'k \<Rightarrow> 'v \<Rightarrow> 'v" where
  "dict_get d k dflt = (case map_of d k of None \<Rightarrow> dflt | Some v \<Rightarrow> v)"

fun setdefault_append :: "('k \<times> 'v list) list \<Rightarrow> 'k \<Rightarrow> 'v \<Rightarrow> ('k \<times> 'v list) list" where
  "setdefault_append [] k v = [(k, [v])]"
| "setdefault_append ((k', vs) # d) k v =
     (if k' = k then (k', vs @ [v]) # d else (k', vs) # setdefault_append d k v)"

section \<open>The company indexes (searchSecCompanies.py)\<close>

text \<open>
  \<open>companyData\<close> is the dictionary downloaded from the SEC: each value holds \<open>cik_str\<close>,
  \<open>ticker\<close> and \<open>title\<close>. \<open>createHashIndexes\<close> walks \<open>companyData.items()\<close> once; the body
  of its loop is \<open>index_company\<close>.
\<close>

record company =
  cik_str :: pyval
  ticker :: string
  title :: string

definition ticker_entry :: "company \<Rightarrow> entry" where
  "ticker_entry c = [(''cik_str'', cik_str c), (''title'', PyStr (title c))]"

definition title_entry :: "company \<Rightarrow> entry" where
  "title_entry c = [(''cik_str'', cik_str c), (''ticker'', PyStr (ticker c))]"

definition cik_entry :: "company \<Rightarrow> entry" where
  "cik_entry c = [(''ticker'', PyStr (ticker c)), (''title'', PyStr (title c))]"

fun index_company :: "index \<times> index \<times> index \<Rightarrow> string \<times> company \<Rightarrow> index \<times> index \<times> index" where
  "index_company (tickerIndex, titleIndex, cikIndex) (key, c) =
     (setdefault_append tickerIndex (lower (ticker c)) (ticker_entry c),
      setdefault_append titleIndex (lower (title c)) (title_entry c),
      setdefault_append cikIndex (py_str (cik_str c)) (cik_entry c))"

definition createHashIndexes :: "(string \<times> company) list \<Rightarrow> index \<times> index \<times> index" where
  "createHashIndexes companyData = foldl index_company ([], [], []) companyData"

definition searchByTicker :: "index \<Rightarrow> string \<Rightarrow> entry list option" where
  "searchByTicker tickerIndex tickerTarget = map_of tickerIndex (lower tickerTarget)"

definition searchByCik :: "index \<Rightarrow> string \<Rightarrow> entry list option" where
  "searchByCik cikIndex cikTarget = map_of cikIndex cikTarget"

text \<open>
  The module defines \<open>searchByTitle\<close> twice; the second definition (with \<open>partial\<close>) replaces
  the first when the module is loaded, and it is the one modelled. Its loop over
  \<open>titleIndex.items()\<close> extends \<open>result\<close>, which \<open>searchByTitle_loop\<close> carries.
\<close>

fun searchByTitle_loop :: "index \<Rightarrow> string \<Rightarrow> bool \<Rightarrow> entry list \<Rightarrow> entry list" where
  "searchByTitle_loop [] titleTarget partial result = result"
| "searchByTitle_loop ((title_key, companies) # items) titleTarget partial result =
     (if partial
      then (if str_in titleTarget (lower title_key)
            then searchByTitle_loop items titleTarget partial (result @ companies)
            else searchByTitle_loop items titleTarget partial result)
      else (if titleTarget = lower title_key
            then searchByTitle_loop items titleTarget partial (result @ companies)
            else searchByTitle_loop items titleTarget partial result))"

definition searchByTitle :: "index \<Rightarrow> string \<Rightarrow> bool \<Rightarrow> entry list option" where
  "searchByTitle titleIndex titleTarget partial =
     (let result = searchByTitle_loop titleIndex titleTarget partial []
      in if result \<noteq> [] then Some result else None)"

section \<open>Parsing search results (searchSecCompanies.py)\<close>

text \<open>
  \<open>xs[i]\<close> for a non-negative index raises \<open>IndexError\<close> out of range.
\<close>

definition py_nth :: "'a list \<Rightarrow> nat \<Rightarrow> py_error + 'a" where
  "py_nth xs i = (if i < length xs then Inr (xs ! i) else Inl IndexError)"

text \<open>
  \<open>parseSearchResults\<close> returns \<open>None\<close>, the tuple \<open>(title, ticker, cik)\<close> of one company
  (\<open>Single\<close>), or three tuples of titles, tickers and ciks (\<open>Many\<close>). The body of its loop
  appends to the three lists only in the three branches of its \<open>if\<close>/\<open>elif\<close> chain; a record
  with no field equal to \<open>'N/A'\<close> appends nothing.
\<close>

datatype parsed = Single pyval pyval pyval | Many "pyval list" "pyval list" "pyval list"

fun parseSearchResults_loop ::
  "entry list \<Rightarrow> string \<Rightarrow> pyval list \<times> pyval list \<times> pyval list
     \<Rightarrow> pyval list \<times> pyval list \<times> pyval list" where
  "parseSearchResults_loop [] userInput (titles, tickers, ciks) = (titles, tickers, ciks)"
| "parseSearchResults_loop (company # rest) userInput (titles, tickers, ciks) =
     (let title_v = dict_get company ''title'' (PyStr ''N/A'');
          ticker_v = dict_get company ''ticker'' (PyStr ''N/A'');
          cik = dict_get company ''cik_str'' (PyStr ''N/A'')
      in if title_v = PyStr ''N/A''
         then parseSearchResults_loop rest userInput
                (titles @ [PyStr userInput], tickers @ [ticker_v], ciks @ [PyStr (py_str cik)])
         else if ticker_v = PyStr ''N/A''
         then parseSearchResults_loop rest userInput
                (titles @ [title_v], tickers @ [PyStr userInput], ciks @ [PyStr (py_str cik)])
         else if cik = PyStr ''N/A''
         then parseSearchResults_loop rest userInput
                (titles @ [title_v], tickers @ [ticker_v], ciks @ [PyStr userInput])
         else parseSearchResults_loop rest userInput (titles, tickers, ciks))"

definition parseSearchResults :: "entry list option \<Rightarrow> string \<Rightarrow> py_error + parsed option" where
  "parseSearchResults searchResults userInput =
     (case searchResults of
        None \<Rightarrow> Inr None
      | Some [] \<Rightarrow> Inr None
      | Some (r # rs) \<Rightarrow>
          (case parseSearchResults_loop (r # rs) userInput ([], [], []) of
             (titles, tickers, ciks) \<Rightarrow>
               if length (r # rs) = 1
               then (case py_nth titles 0 of
                       Inl e \<Rightarrow> Inl e
                     | Inr t \<Rightarrow>
                         (case py_nth tickers 0 of
                            Inl e \<Rightarrow> Inl e
                          | Inr k \<Rightarrow>
                              (case py_nth ciks 0 of
                                 Inl e \<Rightarrow> Inl e
                               | Inr c \<Rightarrow> Inr (Some (Single t k c)))))
               else Inr (Some (Many titles tickers ciks))))"

section \<open>The interactive search (searchSecCompanies.py)\<close>

text \<open>
  \<open>int(s)\<close> on a string: surrounding whitespace, an optional sign, then decimal digits in
  which single underscores may separate digits; anything else raises \<open>ValueError\<close>
  (\<open>None\<close> here).
\<close>

definition valid_int_body :: "string \<Rightarrow> bool" where
  "valid_int_body b =
     (b \<noteq> [] \<and> is_digit_char (hd b) \<and> is_digit_char (last b)
      \<and> list_all (\<lambda>c. is_digit_char c \<or> c = CHR ''_'') b \<and> \<not> str_in ''__'' b)"

definition digits_val :: "string \<Rightarrow> nat" where
  "digits_val b = foldl (\<lambda>a c. 10 * a + (of_char c - 48)) 0 (filter is_digit_char b)"

definition py_int :: "string \<Rightarrow> int option" where
  "py_int s =
     (let t = strip s;
          neg = (t \<noteq> [] \<and> hd t = CHR ''-'');
          b = (if t \<noteq> [] \<and> (hd t = CHR ''-'' \<or> hd t = CHR ''+'') then tl t else t)
      in if valid_int_body b
         then Some (if neg then - int (digits_val b) else int (digits_val b))
         else None)"

text \<open>
  The part of \<open>searchCompany\<close> that chooses the index from the form of \<open>userInput\<close> and
  computes \<open>result\<close>; all three branches then call \<open>parseSearchResults(result, userInput)\<close>.
\<close>

definition searchCompany_result :: "index \<Rightarrow> index \<Rightarrow> index \<Rightarrow> string \<Rightarrow> entry list option" where
  "searchCompany_result tickerIndex titleIndex cikIndex userInput =
     (if isdigit userInput
      then searchByCik cikIndex userInput
      else if isalpha userInput \<or> isalnum userInput
      then (case searchByTicker tickerIndex (lower userInput) of
              None \<Rightarrow> searchByTitle titleIndex (lower userInput) True
            | Some [] \<Rightarrow> searchByTitle titleIndex (lower userInput) True
            | Some (r # rs) \<Rightarrow> Some (r # rs))
      else searchByTitle titleIndex (lower userInput) True)"

text \<open>
  The selection step of \<open>handleSearchResults\<close>, on the line the user typed. On a selection
  out of range, and in the handler of \<open>ValueError\<close>, the source calls
  \<open>handleSearchResults(parsedResults, userInput)\<close>: two arguments for a function of five
  parameters, so the call raises \<open>TypeError\<close> before the body runs. The \<open>try\<close> catches
  \<open>ValueError\<close> only, so the \<open>TypeError\<close> leaves \<open>handleSearchResults\<close>.
\<close>

definition select_company ::
  "pyval list \<Rightarrow> pyval list \<Rightarrow> pyval list \<Rightarrow> string \<Rightarrow> py_error + (pyval \<times> pyval \<times> pyval) option" where
  "select_company titles tickers ciks line =
     (case py_int line of
        None \<Rightarrow> Inl TypeError
      | Some selection \<Rightarrow>
          if 1 \<le> selection \<and> selection \<le> int (length titles)
          then (case py_nth titles (nat (selection - 1)) of
                  Inl e \<Rightarrow> Inl e
                | Inr t \<Rightarrow>
                    (case py_nth tickers (nat (selection - 1)) of
                       Inl e \<Rightarrow> Inl e
                     | Inr k \<Rightarrow>
                         (case py_nth ciks (nat (selection - 1)) of
                            Inl e \<Rightarrow> Inl e
                          | Inr c \<Rightarrow> Inr (Some (t, k, c)))))
          else Inl TypeError)"

text \<open>
  \<open>searchCompany\<close> and \<open>handleSearchResults\<close> call each other. The lines the user types are
  the list \<open>inputs\<close>; \<open>input()\<close> takes the first one and raises \<open>EOFError\<close> when none is
  left. Printing, \<open>time.sleep\<close> and \<open>clearTerminal\<close> do not change the result and are left
  out. A \<open>Single\<close> result whose title is not a string fails the \<open>isinstance\<close> test and
  reaches \<open>len(parsedResults[0])\<close>, which raises \<open>TypeError\<close>.
\<close>

fun searchCompany ::
  "index \<Rightarrow> index \<Rightarrow> index \<Rightarrow> string list \<Rightarrow> py_error + (pyval \<times> pyval \<times> pyval) option"
and handleSearchResults ::
  "parsed option \<Rightarrow> index \<Rightarrow> index \<Rightarrow> index \<Rightarrow> string \<Rightarrow> string list
     \<Rightarrow> py_error + (pyval \<times> pyval \<times> pyval) option" where
  "searchCompany tickerIndex titleIndex cikIndex [] = Inl EOFError"
| "searchCompany tickerIndex titleIndex cikIndex (line # inputs) =
     (case parseSearchResults
             (searchCompany_result tickerIndex titleIndex cikIndex (strip line)) (strip line) of
        Inl e \<Rightarrow> Inl e
      | Inr parsedResults \<Rightarrow>
          handleSearchResults parsedResults tickerIndex titleIndex cikIndex (strip line) inputs)"
| "handleSearchResults None tickerIndex titleIndex cikIndex userInput inputs =
     searchCompany tickerIndex titleIndex cikIndex inputs"
| "handleSearchResults (Some (Single t k c)) tickerIndex titleIndex cikIndex userInput inputs =
     (case t of PyStr s \<Rightarrow> Inr (Some (t, k, c)) | PyInt i \<Rightarrow> Inl TypeError)"
| "handleSearchResults (Some (Many titles tickers ciks)) tickerIndex titleIndex cikIndex userInput [] =
     (if length titles > 1 then Inl EOFError else Inr None)"
| "handleSearchResults (Some (Many titles tickers ciks)) tickerIndex titleIndex cikIndex userInput
       (line # inputs) =
     (if length titles > 1 then select_company titles tickers ciks line else Inr None)"

section \<open>The rate limiter (makeRequest.py)\<close>

text \<open>
  The fields of a \<open>RateLimiter\<close> object; the lock is left out (one caller at a time). Time is
  a real number of seconds and \<open>elapsed\<close> is the exact difference of two readings.
  \<open>wait_iter\<close> is one pass through the body of the \<open>while True\<close> loop of \<open>wait\<close>, at the
  reading \<open>currentTime\<close> of \<open>time.time()\<close>: it gives the object as updated and whether the
  pass reached \<open>return\<close>.
\<close>

record RateLimiter =
  maxCalls :: int
  period :: real
  calls :: int
  startTime :: real

definition RateLimiter_init :: "int \<Rightarrow> real \<Rightarrow> real \<Rightarrow> RateLimiter" where
  "RateLimiter_init maxCalls_arg period_arg now =
     \<lparr>maxCalls = maxCalls_arg, period = period_arg, calls = 0, startTime = now\<rparr>"

definition wait_iter :: "RateLimiter \<Rightarrow> real \<Rightarrow> RateLimiter \<times> bool" where
  "wait_iter self currentTime =
     (let elapsed = currentTime - startTime self;
          self1 = (if elapsed > period self
                   then self\<lparr>calls := 0, startTime := currentTime\<rparr> else self)
      in if calls self1 < maxCalls self1
         then (self1\<lparr>calls := calls self1 + 1\<rparr>, True)
         else (self1, False))"

text \<open>
  The loop of \<open>wait\<close> reads the clock once per pass and sleeps between passes. The list
  \<open>clock\<close> holds the successive readings of \<open>time.time()\<close>. \<open>wait\<close> returns the object, the
  reading at which it returned and the readings not yet consumed; \<open>None\<close> says that the
  call is still blocked when the readings end.
\<close>

fun wait :: "RateLimiter \<Rightarrow> real list \<Rightarrow> (RateLimiter \<times> real \<times> real list) option" where
  "wait self [] = None"
| "wait self (currentTime # clock) =
     (case wait_iter self currentTime of
        (self', True) \<Rightarrow> Some (self', currentTime, clock)
      | (self', False) \<Rightarrow> wait self' clock)"

text \<open>
  The times at which successive calls of \<open>wait\<close> return, when the calls together read the
  clock readings \<open>clock\<close>: each pass of the loop takes one reading, and a pass that returns
  ends one call, the next reading being the first of the next call.
\<close>

fun completions :: "RateLimiter \<Rightarrow> real list \<Rightarrow> real list" where
  "completions self [] = []"
| "completions self (currentTime # clock) =
     (case wait_iter self currentTime of
        (self', True) \<Rightarrow> currentTime # completions self' clock
      | (self', False) \<Rightarrow> completions self' clock)"

section \<open>The EDGAR client (makeRequest.py)\<close>

text \<open>
  \<open>EdgarClient\<close> objects live in a store, addressed by numbers. The class attribute
  \<open>_instance\<close> holds the address of the single instance, or nothing. \<open>__new__\<close> allocates
  an object and sets its \<open>rateLimiter\<close> only when \<open>_instance\<close> is \<open>None\<close>; the class has no
  \<open>__init__\<close>. The argument \<open>rateLimiter\<close> is \<open>None\<close> or an object of any type \<open>'r\<close>.
\<close>

record 'r EdgarClient =
  rateLimiter :: "'r option"

record 'r EdgarClient_class =
  instance_attr :: "nat option"
  store :: "nat \<Rightarrow> 'r EdgarClient option"
  next_addr :: nat

definition EdgarClient_new :: "'r EdgarClient_class \<Rightarrow> 'r option \<Rightarrow> 'r EdgarClient_class \<times> nat" where
  "EdgarClient_new cls rateLimiter_arg =
     (case instance_attr cls of
        None \<Rightarrow>
          (let a = next_addr cls
           in (cls\<lparr>instance_attr := Some a,
                   store := (store cls)(a \<mapsto> \<lparr>rateLimiter = rateLimiter_arg\<rparr>),
                   next_addr := Suc a\<rparr>, a))
      | Some a \<Rightarrow> (cls, a))"

text \<open>
  Construction calls one after the other, as \<open>makeRequest\<close> makes one at every request:
  the addresses returned, and the class at the end.
\<close>

fun EdgarClient_news :: "'r EdgarClient_class \<Rightarrow> 'r option list \<Rightarrow> 'r EdgarClient_class \<times> nat list" where
  "EdgarClient_news cls [] = (cls, [])"
| "EdgarClient_news cls (r # rs) =
     (case EdgarClient_new cls r of
        (cls', a) \<Rightarrow> (case EdgarClient_news cls' rs of (cls'', as) \<Rightarrow> (cls'', a # as)))"

text \<open>
  \<open>makeRequest\<close> builds \<open>RateLimiter(maxCalls=10, period=60)\<close> at the time \<open>now\<close> and passes
  it to the constructor of \<open>EdgarClient\<close>.
\<close>

definition makeRequest_client ::
  "RateLimiter EdgarClient_class \<Rightarrow> real \<Rightarrow> RateLimiter EdgarClient_class \<times> nat" where
  "makeRequest_client cls now = EdgarClient_new cls (Some (RateLimiter_init 10 60 now))"

text \<open>
  \<open>get_data\<close>: the HTTP response is what \<open>requests.get\<close> gave, or the exception it raised;
  \<open>json_body\<close> is what \<open>response.json()\<close> gives, the parsed body or the exception of a body
  that is not JSON. A \<open>RateLimiter\<close> object is true in \<open>if self.rateLimiter\<close>. The result is
  \<open>None\<close> when \<open>wait\<close> has not returned within the clock readings; otherwise it holds the
  client as updated, the readings left, and the value returned or the exception raised.
\<close>

record 'j response =
  status_code :: int
  json_body :: "py_error + 'j"

definition get_data ::
  "RateLimiter EdgarClient \<Rightarrow> real list \<Rightarrow> py_error + 'j response
     \<Rightarrow> (RateLimiter EdgarClient \<times> real list \<times> (py_error + 'j option)) option" where
  "get_data self clock requests_get =
     (case (case rateLimiter self of
              None \<Rightarrow> Some (self, clock)
            | Some l \<Rightarrow>
                (case wait l clock of
                   None \<Rightarrow> None
                 | Some (l', t, clock') \<Rightarrow> Some (self\<lparr>rateLimiter := Some l'\<rparr>, clock'))) of
        None \<Rightarrow> None
      | Some (self', clock') \<Rightarrow>
          Some (self', clock',
            (case requests_get of
               Inl e \<Rightarrow> Inl e
             | Inr response \<Rightarrow>
                 if status_code response \<noteq> 200 then Inr None
                 else (case json_body response of Inl e \<Rightarrow> Inl e | Inr j \<Rightarrow> Inr (Some j)))))"

section \<open>Correcting fact rows (requestCompanyFacts.py)\<close>

text \<open>
  A cell of the data frame is missing (\<open>NaN\<close>), a string or an integer. A row maps column
  names to cells. \<open>pd.isna\<close> holds of a missing cell only; an f-string formats a cell with
  \<open>str\<close>; \<open>len\<close> and slicing raise \<open>TypeError\<close> on a number.
\<close>

datatype cell = NaN | Str string | Num int

type_synonym row = "string \<Rightarrow> cell"

fun isna :: "cell \<Rightarrow> bool" where
  "isna NaN = True"
| "isna (Str s) = False"
| "isna (Num n) = False"

fun format_cell :: "cell \<Rightarrow> string" where
  "format_cell NaN = ''nan''"
| "format_cell (Str s) = s"
| "format_cell (Num n) = str_int n"

definition correctRow :: "row \<Rightarrow> py_error + row" where
  "correctRow r =
     (if (isna (r ''fp'') \<or> r ''fp'' = Str ''FY'') \<and> isna (r ''frame'')
      then Inr (r(''fp'' := Str ''N/a'', ''frame'' := Str (''CY'' @ format_cell (r ''fy''))))
      else if isna (r ''frame'') \<and> \<not> isna (r ''fp'') \<and> r ''fp'' \<noteq> Str ''FY''
      then Inr (r(''frame'' := Str (''CY'' @ format_cell (r ''fy'') @ format_cell (r ''fp'') @ ''I'')))
      else if (isna (r ''fp'') \<or> r ''fp'' = Str ''FY'') \<and> \<not> isna (r ''frame'')
      then (case r ''frame'' of
              Str f \<Rightarrow>
                if length f = 6 then Inr (r(''fp'' := Str ''N/A''))
                else if length f \<ge> 9 then Inr (r(''fp'' := Str (take 2 (drop 6 f))))
                else Inr r
            | Num n \<Rightarrow> Inl TypeError
            | NaN \<Rightarrow> Inr r)
      else Inr r)"

text \<open>\<open>conceptDataFrame.apply(correctRow, axis=1)\<close>: every row in turn, until one raises.\<close>

fun updateFyAndFrameCols :: "row list \<Rightarrow> py_error + row list" where
  "updateFyAndFrameCols [] = Inr []"
| "updateFyAndFrameCols (r # rs) =
     (case correctRow r of
        Inl e \<Rightarrow> Inl e
      | Inr r' \<Rightarrow> (case updateFyAndFrameCols rs of Inl e \<Rightarrow> Inl e | Inr rs' \<Rightarrow> Inr (r' # rs')))"

section \<open>Notions used in the statements\<close>

text \<open>
  The number of entries of an index, summed over its buckets; the bucket of a key (empty
  when the key is absent); the records of a search result (none for \<open>None\<close>); and an index
  grown from a list by a key function \<open>f\<close> and an entry function \<open>g\<close>.
\<close>

definition entries_total :: "index \<Rightarrow> nat" where
  "entries_total idx = sum_list (map (\<lambda>(k, b). length b) idx)"

definition bucket :: "index \<Rightarrow> string \<Rightarrow> entry list" where
  "bucket idx k = (case map_of idx k of None \<Rightarrow> [] | Some b \<Rightarrow> b)"

definition results_set :: "entry list option \<Rightarrow> entry set" where
  "results_set r = (case r of None \<Rightarrow> {} | Some xs \<Rightarrow> set xs)"

definition index_by :: "('x \<Rightarrow> string) \<Rightarrow> ('x \<Rightarrow> entry) \<Rightarrow> index \<Rightarrow> 'x list \<Rightarrow> index" where
  "index_by f g idx xs = foldl (\<lambda>i x. setdefault_append i (f x) (g x)) idx xs"

text \<open>
  Example data: two records of the SEC list; two records whose tickers differ in case
  only; and a title index with two titles that share a word.
\<close>

definition apple_msft :: "(string \<times> company) list" where
  "apple_msft =
     [(''0'', \<lparr>cik_str = PyInt 320193, ticker = ''AAPL'', title = ''Apple Inc.''\<rparr>),
      (''1'', \<lparr>cik_str = PyInt 789019, ticker = ''MSFT'', title = ''Microsoft Corp''\<rparr>)]"

definition abc_pair :: "(string \<times> company) list" where
  "abc_pair =
     [(''0'', \<lparr>cik_str = PyInt 11, ticker = ''ABC'', title = ''Abc One''\<rparr>),
      (''1'', \<lparr>cik_str = PyInt 22, ticker = ''abc'', title = ''Abc Two''\<rparr>)]"

definition apple_titles :: index where
  "apple_titles =
     [(''apple inc.'', [[(''cik_str'', PyInt 320193), (''ticker'', PyStr ''AAPL'')]]),
      (''apple hospitality reit, inc.'', [[(''cik_str'', PyInt 1418121), (''ticker'', PyStr ''APLE'')]]),
      (''microsoft corp'', [[(''cik_str'', PyInt 789019), (''ticker'', PyStr ''MSFT'')]])]"

text \<open>The three indexes of \<open>apple_msft\<close>.\<close>

definition apple_tickers :: index where
  "apple_tickers = fst (createHashIndexes apple_msft)"

definition apple_msft_titles :: index where
  "apple_msft_titles = fst (snd (createHashIndexes apple_msft))"

definition apple_ciks :: index where
  "apple_ciks = snd (snd (createHashIndexes apple_msft))"

text \<open>
  Two candidates for a selection, and the search results of the example in the docstring
  of \<open>parseSearchResults\<close>, whose records hold all three fields.
\<close>

definition alpha_candidates :: parsed where
  "alpha_candidates =
     Many [PyStr ''Alpha Co'', PyStr ''Alpha Corp''] [PyStr ''ALCO'', PyStr ''ALCP'']
          [PyStr ''1001'', PyStr ''1002'']"

definition docstring_results :: "entry list" where
  "docstring_results =
     [[(''ticker'', PyStr ''NTWOU''), (''title'', PyStr ''Newbury Street II Acquisition Corp''),
       (''cik_str'', PyInt 2028027)],
      [(''ticker'', PyStr ''XYZ''), (''title'', PyStr ''XYZ Corporation''),
       (''cik_str'', PyInt 2028030)]]"

text \<open>
  Two fact rows of fiscal year 2020 with \<open>fp = "FY"\<close>: one without a frame, one with the
  frame \<open>CY2020\<close>. The class \<open>EdgarClient\<close> before any construction. The completions of
  \<open>wait\<close> that fall in the window of length \<open>period\<close> that starts at \<open>startTime\<close>.
\<close>

definition fy_row :: row where
  "fy_row = (\<lambda>c. NaN)(''fy'' := Num 2020, ''fp'' := Str ''FY'')"

definition framed_row :: row where
  "framed_row = (\<lambda>c. NaN)(''fy'' := Num 2020, ''fp'' := Str ''FY'', ''frame'' := Str ''CY2020'')"

definition empty_class :: "RateLimiter EdgarClient_class" where
  "empty_class = \<lparr>instance_attr = None, store = (\<lambda>a. None), next_addr = 0\<rparr>"

definition window_completions :: "RateLimiter \<Rightarrow> real list \<Rightarrow> real list" where
  "window_completions self clock =
     filter (\<lambda>t. startTime self \<le> t \<and> t \<le> startTime self + period self) (completions self clock)"

text \<open>A client whose limiter was built at time 0.\<close>

definition limited_client :: "RateLimiter EdgarClient" where
  "limited_client = \<lparr>rateLimiter = Some (RateLimiter_init 10 60 0)\<rparr>"

section \<open>Properties of the indexes\<close>

lemma entries_total_setdefault_append:
  "entries_total (setdefault_append idx k v) = Suc (entries_total idx)"
  by (induction idx k v rule: setdefault_append.induct) (simp_all add: entries_total_def)

lemma bucket_setdefault_append:
  "bucket (setdefault_append idx k v) k' = (if k' = k then bucket idx k @ [v] else bucket idx k')"
  by (induction idx k v rule: setdefault_append.induct) (auto simp: bucket_def)

lemma map_of_setdefault_append:
  "map_of (setdefault_append idx k v) k' =
     (if k' = k then Some (bucket idx k @ [v]) else map_of idx k')"
  by (induction idx k v rule: setdefault_append.induct) (auto simp: bucket_def)

lemma keys_setdefault_append:
  "map fst (setdefault_append idx k v) =
     (if k \<in> set (map fst idx) then map fst idx else map fst idx @ [k])"
  by (induction idx k v rule: setdefault_append.induct) auto

lemma distinct_setdefault_append:
  "distinct (map fst idx) \<Longrightarrow> distinct (map fst (setdefault_append idx k v))"
  by (simp add: keys_setdefault_append)

lemma index_by_total: "entries_total (index_by f g idx xs) = entries_total idx + length xs"
  unfolding index_by_def
  by (induction xs arbitrary: idx) (simp_all add: entries_total_setdefault_append)

lemma index_by_distinct: "distinct (map fst idx) \<Longrightarrow> distinct (map fst (index_by f g idx xs))"
  unfolding index_by_def
  by (induction xs arbitrary: idx) (simp_all add: distinct_setdefault_append)

lemma index_by_bucket:
  "bucket (index_by f g idx xs) k = bucket idx k @ map g (filter (\<lambda>x. f x = k) xs)"
  unfolding index_by_def
  by (induction xs arbitrary: idx) (simp_all add: bucket_setdefault_append)

lemma index_by_map_of:
  "map_of (index_by f g idx xs) k =
     (if filter (\<lambda>x. f x = k) xs = [] then map_of idx k
      else Some (bucket idx k @ map g (filter (\<lambda>x. f x = k) xs)))"
  unfolding index_by_def
  by (induction xs arbitrary: idx)
     (simp_all add: bucket_setdefault_append map_of_setdefault_append)

lemma createHashIndexes_index_by:
  "foldl index_company (i1, i2, i3) companyData =
     (index_by (\<lambda>c. lower (ticker c)) ticker_entry i1 (map snd companyData),
      index_by (\<lambda>c. lower (title c)) title_entry i2 (map snd companyData),
      index_by (\<lambda>c. py_str (cik_str c)) cik_entry i3 (map snd companyData))"
  unfolding index_by_def
  by (induction companyData arbitrary: i1 i2 i3) auto

lemma entries_total_Nil: "entries_total [] = 0"
  by (simp add: entries_total_def)

lemma bucket_Nil: "bucket [] k = []"
  by (simp add: bucket_def)

text \<open>
  C4. For a company mapping of N records, each of the three indexes that
  \<open>createHashIndexes\<close> returns holds exactly N entries summed over its buckets (the keys of
  an index are distinct, so no bucket is counted twice). The bucket of a key holds one
  entry for every record with that key, in the order of \<open>companyData.items()\<close>: records
  that share a key are appended, none is dropped or overwritten.
\<close>

theorem createHashIndexes_entries:
  "case createHashIndexes companyData of
     (tickerIndex, titleIndex, cikIndex) \<Rightarrow>
       entries_total tickerIndex = length companyData
     \<and> entries_total titleIndex = length companyData
     \<and> entries_total cikIndex = length companyData
     \<and> distinct (map fst tickerIndex) \<and> distinct (map fst titleIndex) \<and> distinct (map fst cikIndex)
     \<and> (\<forall>k. bucket tickerIndex k
              = map ticker_entry (filter (\<lambda>c. lower (ticker c) = k) (map snd companyData)))
     \<and> (\<forall>k. bucket titleIndex k
              = map title_entry (filter (\<lambda>c. lower (title c) = k) (map snd companyData)))
     \<and> (\<forall>k. bucket cikIndex k
              = map cik_entry (filter (\<lambda>c. py_str (cik_str c) = k) (map snd companyData)))"
  by (simp add: createHashIndexes_def createHashIndexes_index_by index_by_total
        index_by_distinct index_by_bucket entries_total_Nil bucket_Nil)

lemma str_11: "str_int 11 = ''11''"
  by (simp add: str_int_def str_nat.simps)

lemma str_22: "str_int 22 = ''22''"
  by (simp add: str_int_def str_nat.simps)

text \<open>
  Two records whose tickers differ in case only share one bucket of the ticker index, in
  source order, and every index counts two entries.
\<close>

theorem createHashIndexes_entries_witness:
  "(case createHashIndexes abc_pair of
      (tickerIndex, titleIndex, cikIndex) \<Rightarrow>
        tickerIndex = [(''abc'', [[(''cik_str'', PyInt 11), (''title'', PyStr ''Abc One'')],
                                 [(''cik_str'', PyInt 22), (''title'', PyStr ''Abc Two'')]])]
      \<and> entries_total tickerIndex = 2 \<and> entries_total titleIndex = 2 \<and> entries_total cikIndex = 2)"
  using createHashIndexes_entries [of abc_pair]
  by (simp add: createHashIndexes_def abc_pair_def ticker_entry_def title_entry_def
        cik_entry_def lower_def lower_char_def str_11 str_22 entries_total_def)

lemma str_320193: "str_int 320193 = ''320193''"
  by (simp add: str_int_def str_nat.simps)

lemma str_789019: "str_int 789019 = ''789019''"
  by (simp add: str_int_def str_nat.simps)

text \<open>
  C10. The CIK index is keyed by \<open>str(cik_str)\<close> as the source data holds it, and
  \<open>searchByCik\<close> looks the target up unchanged: it finds records exactly when the target
  is \<open>str(cik_str)\<close> of some record, and then returns those records; for any other target,
  a zero-padded form of a stored CIK included, it returns \<open>None\<close>.
\<close>

theorem searchByCik_exact:
  "searchByCik (snd (snd (createHashIndexes companyData))) cikTarget =
     (if cikTarget \<in> set (map (\<lambda>kc. py_str (cik_str (snd kc))) companyData)
      then Some (map cik_entry (filter (\<lambda>c. py_str (cik_str c) = cikTarget) (map snd companyData)))
      else None)"
proof -
  have "filter (\<lambda>c. py_str (cik_str c) = cikTarget) (map snd companyData) = []
        \<longleftrightarrow> cikTarget \<notin> set (map (\<lambda>kc. py_str (cik_str (snd kc))) companyData)"
    by (auto simp: filter_empty_conv)
  then show ?thesis
    by (simp add: searchByCik_def createHashIndexes_def createHashIndexes_index_by
          index_by_map_of bucket_Nil)
qed

text \<open>
  With \<open>320193\<close> stored, the target \<open>0000320193\<close> finds nothing and \<open>320193\<close> finds the
  record.
\<close>

theorem searchByCik_exact_witness:
  "searchByCik (snd (snd (createHashIndexes apple_msft))) ''0000320193'' = None
   \<and> searchByCik (snd (snd (createHashIndexes apple_msft))) ''320193''
       = Some [[(''ticker'', PyStr ''AAPL''), (''title'', PyStr ''Apple Inc.'')]]"
  using searchByCik_exact [of apple_msft "''0000320193''"]
        searchByCik_exact [of apple_msft "''320193''"]
  by (simp add: apple_msft_def str_320193 str_789019 cik_entry_def)

section \<open>Title search\<close>

lemma str_in_refl: "str_in t t"
  by (cases t) simp_all

lemma searchByTitle_loop_partial:
  "searchByTitle_loop idx t True acc =
     acc @ concat (map snd (filter (\<lambda>kb. str_in t (lower (fst kb))) idx))"
  by (induction idx arbitrary: acc) auto

lemma searchByTitle_loop_exact:
  "searchByTitle_loop idx t False acc =
     acc @ concat (map snd (filter (\<lambda>kb. t = lower (fst kb)) idx))"
  by (induction idx arbitrary: acc) auto

text \<open>
  C9. For every title index and every query (the empty one included), each record that
  \<open>searchByTitle\<close> returns with \<open>partial=False\<close> is among the records it returns with
  \<open>partial=True\<close> for the same query.
\<close>

theorem searchByTitle_partial_superset:
  "results_set (searchByTitle titleIndex titleTarget False)
     \<subseteq> results_set (searchByTitle titleIndex titleTarget True)"
proof -
  have "set (searchByTitle_loop titleIndex titleTarget False [])
          \<subseteq> set (searchByTitle_loop titleIndex titleTarget True [])"
    by (auto simp: searchByTitle_loop_partial searchByTitle_loop_exact str_in_refl)
  then show ?thesis
    by (auto simp: results_set_def searchByTitle_def Let_def split: if_splits)
qed

text \<open>
  On a title index with two titles that hold the word \<open>apple\<close>: the exact search for a
  whole title finds its record, the exact search for the word finds nothing, and the
  partial search for the word finds both records.
\<close>

theorem searchByTitle_partial_superset_witness:
  "searchByTitle apple_titles ''apple inc.'' False
     = Some [[(''cik_str'', PyInt 320193), (''ticker'', PyStr ''AAPL'')]]
   \<and> searchByTitle apple_titles ''apple'' False = None
   \<and> searchByTitle apple_titles ''apple'' True
     = Some [[(''cik_str'', PyInt 320193), (''ticker'', PyStr ''AAPL'')],
             [(''cik_str'', PyInt 1418121), (''ticker'', PyStr ''APLE'')]]
   \<and> results_set (searchByTitle apple_titles ''apple inc.'' False)
       \<subseteq> results_set (searchByTitle apple_titles ''apple inc.'' True)"
  using searchByTitle_partial_superset [of apple_titles "''apple inc.''"]
  by (simp add: searchByTitle_def apple_titles_def lower_def lower_char_def)

section \<open>Classification of the user's input\<close>







section \<open>The search on the example data\<close>

lemma createHashIndexes_apple_msft:
  "createHashIndexes apple_msft =
     ([(''aapl'', [[(''cik_str'', PyInt 320193), (''title'', PyStr ''Apple Inc.'')]]),
       (''msft'', [[(''cik_str'', PyInt 789019), (''title'', PyStr ''Microsoft Corp'')]])],
      [(''apple inc.'', [[(''cik_str'', PyInt 320193), (''ticker'', PyStr ''AAPL'')]]),
       (''microsoft corp'', [[(''cik_str'', PyInt 789019), (''ticker'', PyStr ''MSFT'')]])],
      [(''320193'', [[(''ticker'', PyStr ''AAPL''), (''title'', PyStr ''Apple Inc.'')]]),
       (''789019'', [[(''ticker'', PyStr ''MSFT''), (''title'', PyStr ''Microsoft Corp'')]])])"
  by (simp add: createHashIndexes_def apple_msft_def ticker_entry_def title_entry_def
        cik_entry_def lower_def lower_char_def str_320193 str_789019)






section \<open>Selecting among several candidates\<close>

lemma py_int_3: "py_int ''3'' = Some 3"
  by (simp add: py_int_def strip_def is_space_char_def valid_int_body_def is_digit_char_def
        digits_val_def)

lemma py_int_0: "py_int ''0'' = Some 0"
  by (simp add: py_int_def strip_def is_space_char_def valid_int_body_def is_digit_char_def
        digits_val_def)

lemma py_int_2: "py_int ''2'' = Some 2"
  by (simp add: py_int_def strip_def is_space_char_def valid_int_body_def is_digit_char_def
        digits_val_def)

lemma py_int_abc: "py_int ''abc'' = None"
  by (simp add: py_int_def strip_def is_space_char_def valid_int_body_def is_digit_char_def)

lemma select_company_invalid:
  "py_int line = None \<or> (\<exists>n. py_int line = Some n \<and> (n < 1 \<or> int (length titles) < n))
   \<Longrightarrow> select_company titles tickers ciks line = Inl TypeError"
  by (auto simp: select_company_def)

text \<open>
  With several candidates, every line that is not an integer, and every integer out of
  range, ends \<open>handleSearchResults\<close> with \<open>TypeError\<close>; the lines after it are never read.
\<close>

lemma handleSearchResults_invalid_selection:
  "length titles > 1 \<Longrightarrow>
   py_int line = None \<or> (\<exists>n. py_int line = Some n \<and> (n < 1 \<or> int (length titles) < n)) \<Longrightarrow>
   handleSearchResults (Some (Many titles tickers ciks)) tickerIndex titleIndex cikIndex userInput
     (line # inputs) = Inl TypeError"
  by (simp add: select_company_invalid)

text \<open>
  C1. The claim is that an invalid selection among several candidates prompts again with
  the same list and never fails. The code does not do so: with two candidates, the
  selections \<open>3\<close>, \<open>0\<close> and \<open>abc\<close> each raise \<open>TypeError\<close> out of \<open>handleSearchResults\<close>, and
  the valid line that follows is not read; the selection \<open>2\<close> returns the second
  candidate. The same happens through \<open>searchCompany\<close>: the input \<open>p\<close> matches both titles
  of the example data, and the selection \<open>3\<close> then raises.
\<close>

theorem handleSearchResults_retry_raises:
  "handleSearchResults (Some alpha_candidates) [] [] [] ''alpha'' [''3'', ''1''] = Inl TypeError
   \<and> handleSearchResults (Some alpha_candidates) [] [] [] ''alpha'' [''0'', ''1''] = Inl TypeError
   \<and> handleSearchResults (Some alpha_candidates) [] [] [] ''alpha'' [''abc'', ''1''] = Inl TypeError
   \<and> handleSearchResults (Some alpha_candidates) [] [] [] ''alpha'' [''2'']
       = Inr (Some (PyStr ''Alpha Corp'', PyStr ''ALCP'', PyStr ''1002''))
   \<and> searchCompany apple_tickers apple_msft_titles apple_ciks [''p'', ''3'', ''1''] = Inl TypeError"
  by (simp add: alpha_candidates_def select_company_def py_int_3 py_int_0 py_int_2 py_int_abc
        py_nth_def apple_tickers_def apple_msft_titles_def apple_ciks_def
        createHashIndexes_apple_msft strip_def is_space_char_def searchCompany_result_def
        isdigit_def isalpha_def isalnum_def is_digit_char_def is_alpha_char_def
        searchByTicker_def searchByTitle_def lower_def lower_char_def parseSearchResults_def
        dict_get_def str_320193 str_789019)

section \<open>Records with no missing field, or with several\<close>

lemma str_2028027: "str_int 2028027 = ''2028027''"
  by (simp add: str_int_def str_nat.simps)

text \<open>
  C6. The claim is that \<open>parseSearchResults\<close> fills every absent field with the user's
  input and always returns one triple for one record and three aligned tuples for
  several. The code does not do so on the records of its own docstring, which hold all
  three fields: its loop appends nothing for such a record, so the first record alone
  raises \<open>IndexError\<close> at \<open>titles[0]\<close>, and the two records together give three empty
  tuples. A record that lacks two fields keeps the placeholder \<open>N/A\<close> in the second one.
\<close>

theorem parseSearchResults_full_record:
  "parseSearchResults (Some [hd docstring_results]) ''NTWOU'' = Inl IndexError
   \<and> parseSearchResults (Some docstring_results) ''NTWOU'' = Inr (Some (Many [] [] []))
   \<and> parseSearchResults (Some [[(''cik_str'', PyInt 2028027)]]) ''NTWOU''
       = Inr (Some (Single (PyStr ''NTWOU'') (PyStr ''N/A'') (PyStr ''2028027'')))"
  by (simp add: docstring_results_def parseSearchResults_def dict_get_def py_nth_def
        str_2028027)

section \<open>The sentinel of corrected rows\<close>

lemma str_2020: "str_int 2020 = ''2020''"
  by (simp add: str_int_def str_nat.simps)

text \<open>
  The rules of \<open>correctRow\<close> other than the first: a missing frame with a period other
  than \<open>FY\<close>; a frame of length 6; a frame of length 9 or more; and the rows that no rule
  changes.
\<close>

lemma correctRow_other_rules:
  "(isna (r ''frame'') \<and> \<not> isna (r ''fp'') \<and> r ''fp'' \<noteq> Str ''FY'' \<longrightarrow>
      correctRow r
        = Inr (r(''frame'' := Str (''CY'' @ format_cell (r ''fy'') @ format_cell (r ''fp'') @ ''I''))))
   \<and> ((isna (r ''fp'') \<or> r ''fp'' = Str ''FY'') \<and> r ''frame'' = Str f \<and> length f = 6 \<longrightarrow>
      correctRow r = Inr (r(''fp'' := Str ''N/A'')))
   \<and> ((isna (r ''fp'') \<or> r ''fp'' = Str ''FY'') \<and> r ''frame'' = Str f \<and> 9 \<le> length f \<longrightarrow>
      correctRow r = Inr (r(''fp'' := Str (take 2 (drop 6 f)))))
   \<and> ((isna (r ''fp'') \<or> r ''fp'' = Str ''FY'') \<and> r ''frame'' = Str f \<and> length f \<noteq> 6
        \<and> length f < 9 \<longrightarrow> correctRow r = Inr r)
   \<and> (\<not> isna (r ''fp'') \<and> r ''fp'' \<noteq> Str ''FY'' \<and> \<not> isna (r ''frame'') \<longrightarrow> correctRow r = Inr r)"
  by (auto simp: correctRow_def)

text \<open>
  C7. The claim is that a row with \<open>fp\<close> empty or \<open>FY\<close> and no frame gets the sentinel
  \<open>N/A\<close> in \<open>fp\<close>. The code writes \<open>N/a\<close> there: the row of 2020 with \<open>fp = "FY"\<close> and no
  frame comes back with \<open>fp = "N/a"\<close> and \<open>frame = "CY2020"\<close>, while the sibling case of a
  frame of length 6 (the second row) writes \<open>N/A\<close>.
\<close>

theorem correctRow_sentinel:
  "map_sum id (map (\<lambda>r. (r ''fp'', r ''frame''))) (updateFyAndFrameCols [fy_row, framed_row])
     = Inr [(Str ''N/a'', Str ''CY2020''), (Str ''N/A'', Str ''CY2020'')]
   \<and> Str ''N/a'' \<noteq> Str ''N/A''"
  by (simp add: correctRow_def fy_row_def framed_row_def str_2020)

section \<open>The singleton client\<close>

lemma EdgarClient_new_again:
  "instance_attr cls = Some a \<Longrightarrow> EdgarClient_new cls r = (cls, a)"
  by (simp add: EdgarClient_new_def)

lemma EdgarClient_news_again:
  "instance_attr cls = Some a \<Longrightarrow> EdgarClient_news cls rs = (cls, replicate (length rs) a)"
  by (induction rs) (simp_all add: EdgarClient_new_again)

text \<open>
  C3. When no instance exists yet, the first construction allocates the client and stores
  its \<open>rateLimiter\<close> argument. Every later construction, with any argument, returns the
  address of that same object and leaves the class and the whole store as they were, so
  the \<open>rateLimiter\<close> field of the instance is the first argument still; the same holds for
  any number of later constructions in a row.
\<close>

theorem EdgarClient_singleton:
  assumes "instance_attr cls = None"
  shows "case EdgarClient_new cls first of
           (cls1, a) \<Rightarrow>
             store cls1 a = Some \<lparr>rateLimiter = first\<rparr>
           \<and> (\<forall>later. EdgarClient_new cls1 later = (cls1, a))
           \<and> (\<forall>laters. EdgarClient_news cls1 laters = (cls1, replicate (length laters) a))"
  using assms
  by (simp add: EdgarClient_new_def Let_def EdgarClient_new_again EdgarClient_news_again)

text \<open>
  Two calls of \<open>makeRequest\<close>, at the times 0 and 100: the second builds a new
  \<open>RateLimiter\<close>, and the client keeps the one of the first call.
\<close>

theorem EdgarClient_singleton_witness:
  "instance_attr empty_class = None
   \<and> (case makeRequest_client empty_class 0 of
        (cls1, a) \<Rightarrow>
          a = 0
        \<and> store cls1 a = Some \<lparr>rateLimiter = Some (RateLimiter_init 10 60 0)\<rparr>
        \<and> makeRequest_client cls1 100 = (cls1, a)
        \<and> EdgarClient_new cls1 None = (cls1, a))"
  using EdgarClient_singleton [of empty_class "Some (RateLimiter_init 10 60 0)"]
  by (simp add: empty_class_def makeRequest_client_def EdgarClient_new_def)

section \<open>The window of the rate limiter\<close>

lemma completions_subset: "set (completions self clock) \<subseteq> set clock"
  by (induction clock arbitrary: self) (auto split: prod.splits bool.splits)

lemma completions_late:
  assumes "sorted (t # clock)" and "t - startTime self > period self"
  shows "filter (\<lambda>u. u \<le> startTime self + period self) (completions st (t # clock)) = []"
proof -
  have "\<forall>u\<in>set (t # clock). t \<le> u" using assms(1) by auto
  with assms(2) have "\<forall>u\<in>set (t # clock). \<not> u \<le> startTime self + period self" by auto
  with completions_subset [of st "t # clock"] show ?thesis
    by (auto simp: filter_empty_conv)
qed

lemma completions_window_le:
  "sorted clock \<Longrightarrow>
   int (length (filter (\<lambda>t. t \<le> startTime self + period self) (completions self clock)))
     \<le> max 0 (maxCalls self - calls self)"
proof (induction clock arbitrary: self)
  case Nil
  then show ?case by simp
next
  case (Cons t clock)
  have sc: "sorted clock" using Cons.prems by simp
  show ?case
  proof (cases "t - startTime self > period self")
    case True
    then show ?thesis using completions_late [OF Cons.prems True, of self] by simp
  next
    case noreset: False
    show ?thesis
    proof (cases "calls self < maxCalls self")
      case True
      have "completions self (t # clock) = t # completions (self\<lparr>calls := calls self + 1\<rparr>) clock"
        using noreset True by (simp add: wait_iter_def Let_def)
      moreover have "int (length (filter (\<lambda>u. u \<le> startTime self + period self)
                       (completions (self\<lparr>calls := calls self + 1\<rparr>) clock)))
                     \<le> max 0 (maxCalls self - (calls self + 1))"
        using Cons.IH [OF sc, of "self\<lparr>calls := calls self + 1\<rparr>"] by simp
      ultimately show ?thesis using True noreset by simp
    next
      case False
      have "completions self (t # clock) = completions self clock"
        using noreset False by (simp add: wait_iter_def Let_def)
      then show ?thesis using Cons.IH [OF sc, of self] by simp
    qed
  qed
qed

lemma length_filter_conj_le:
  "length (filter (\<lambda>x. P x \<and> Q x) xs) \<le> length (filter Q xs)"
  by (induction xs) auto

lemma window_completions_le:
  assumes "sorted clock" and "calls self = 0" and "0 \<le> maxCalls self"
  shows "int (length (window_completions self clock)) \<le> maxCalls self"
proof -
  have "length (window_completions self clock)
          \<le> length (filter (\<lambda>t. t \<le> startTime self + period self) (completions self clock))"
    unfolding window_completions_def by (rule length_filter_conj_le)
  then show ?thesis using completions_window_le [OF assms(1), of self] assms(2,3) by simp
qed

text \<open>
  \<open>completions\<close> lists the returns of successive calls of \<open>wait\<close>: a call that returns
  at \<open>t\<close> contributes \<open>t\<close> and hands the readings left to the next call, and a call that
  is still blocked at the end contributes nothing. A call that finds the counter below
  \<open>maxCalls\<close> and the period not exceeded returns at its first reading.
\<close>

lemma wait_completions_Some:
  "wait self clock = Some (self', t, clock') \<Longrightarrow>
   completions self clock = t # completions self' clock'"
  by (induction clock arbitrary: self) (auto split: prod.splits bool.splits)

lemma wait_completions_None: "wait self clock = None \<Longrightarrow> completions self clock = []"
  by (induction clock arbitrary: self) (auto split: prod.splits bool.splits)

lemma wait_immediate:
  "calls self < maxCalls self \<Longrightarrow> \<not> t - startTime self > period self \<Longrightarrow>
   wait self (t # clock) = Some (self\<lparr>calls := calls self + 1\<rparr>, t, clock)"
  by (simp add: wait_iter_def Let_def)

lemma completions_burst:
  "calls self + int n \<le> maxCalls self \<Longrightarrow> 0 \<le> period self \<Longrightarrow>
   completions self (replicate n (startTime self) @ clock) =
     replicate n (startTime self) @ completions (self\<lparr>calls := calls self + int n\<rparr>) clock"
proof (induction n arbitrary: self)
  case 0
  then show ?case by simp
next
  case (Suc n)
  have lt: "calls self < maxCalls self" using Suc.prems by simp
  have step: "completions self (startTime self # replicate n (startTime self) @ clock) =
          startTime self # completions (self\<lparr>calls := calls self + 1\<rparr>)
                             (replicate n (startTime self) @ clock)"
    using lt Suc.prems(2) by (simp add: wait_iter_def Let_def)
  have ih: "completions (self\<lparr>calls := calls self + 1\<rparr>) (replicate n (startTime self) @ clock) =
          replicate n (startTime self) @
            completions (self\<lparr>calls := calls self + 1 + int n\<rparr>) clock"
    using Suc.IH [of "self\<lparr>calls := calls self + 1\<rparr>"] Suc.prems by simp
  have e: "calls self + 1 + int n = calls self + int (Suc n)" by simp
  show ?case unfolding replicate_Suc append_Cons step ih e by simp
qed

lemma wait_blocked:
  "maxCalls self \<le> calls self \<Longrightarrow> \<forall>t\<in>set clock. t - startTime self \<le> period self \<Longrightarrow>
   wait self clock = None"
  by (induction clock) (auto simp: wait_iter_def Let_def)

lemma wait_released:
  "maxCalls self \<le> calls self \<Longrightarrow> 0 < maxCalls self \<Longrightarrow>
   \<forall>u\<in>set blocked. u - startTime self \<le> period self \<Longrightarrow>
   t - startTime self > period self \<Longrightarrow>
   wait self (blocked @ t # rest) = Some (self\<lparr>calls := 1, startTime := t\<rparr>, t, rest)"
  by (induction blocked) (auto simp: wait_iter_def Let_def)

text \<open>
  C2. Take a limiter at a window boundary (its counter is zero: it was just constructed,
  or just reset), with a positive \<open>maxCalls\<close> and a period that is not negative. Whatever
  readings an increasing clock gives to the passes of \<open>wait\<close>, at most \<open>maxCalls\<close> calls
  return at times within the window of length \<open>period\<close> that starts at \<open>startTime\<close>. When
  \<open>maxCalls + 1\<close> calls are made with no time elapsed, the first \<open>maxCalls\<close> each return at
  their first reading; the last one stays in the loop as long as the elapsed time does
  not exceed the period, and at the first reading whose elapsed time exceeds it, the call
  returns with the counter reset (and counting this call) and the window restarted at that
  reading. Every pass that finds the period exceeded continues exactly as a limiter whose
  counter is zero and whose window starts at that reading, so the bound holds for every
  window.
\<close>

theorem RateLimiter_window_and_burst:
  assumes "0 < maxCalls self" and "0 \<le> period self" and "calls self = 0"
  shows "(\<forall>clock. sorted clock \<longrightarrow> int (length (window_completions self clock)) \<le> maxCalls self)
       \<and> (\<forall>clock. completions self (replicate (nat (maxCalls self)) (startTime self) @ clock)
              = replicate (nat (maxCalls self)) (startTime self)
                  @ completions (self\<lparr>calls := maxCalls self\<rparr>) clock)
       \<and> (\<forall>blocked. (\<forall>u\<in>set blocked. u - startTime self \<le> period self)
              \<longrightarrow> wait (self\<lparr>calls := maxCalls self\<rparr>) blocked = None)
       \<and> (\<forall>blocked t rest.
              (\<forall>u\<in>set blocked. u - startTime self \<le> period self) \<and> period self < t - startTime self
              \<longrightarrow> wait (self\<lparr>calls := maxCalls self\<rparr>) (blocked @ t # rest)
                    = Some (self\<lparr>calls := 1, startTime := t\<rparr>, t, rest))
       \<and> (\<forall>st t clock. period st < t - startTime st
              \<longrightarrow> completions st (t # clock)
                    = completions (st\<lparr>calls := 0, startTime := t\<rparr>) (t # clock))"
proof (intro conjI allI impI)
  fix clock :: "real list"
  assume "sorted clock"
  then show "int (length (window_completions self clock)) \<le> maxCalls self"
    using window_completions_le [of clock self] assms by simp
next
  fix clock :: "real list"
  have "calls self + int (nat (maxCalls self)) \<le> maxCalls self" using assms by simp
  from completions_burst [OF this assms(2), of clock]
  show "completions self (replicate (nat (maxCalls self)) (startTime self) @ clock)
          = replicate (nat (maxCalls self)) (startTime self)
              @ completions (self\<lparr>calls := maxCalls self\<rparr>) clock"
    using assms by simp
next
  fix blocked :: "real list"
  assume "\<forall>u\<in>set blocked. u - startTime self \<le> period self"
  then show "wait (self\<lparr>calls := maxCalls self\<rparr>) blocked = None"
    using wait_blocked [of "self\<lparr>calls := maxCalls self\<rparr>" blocked] by simp
next
  fix blocked :: "real list" and t rest
  assume "(\<forall>u\<in>set blocked. u - startTime self \<le> period self) \<and> period self < t - startTime self"
  then show "wait (self\<lparr>calls := maxCalls self\<rparr>) (blocked @ t # rest)
               = Some (self\<lparr>calls := 1, startTime := t\<rparr>, t, rest)"
    using wait_released [of "self\<lparr>calls := maxCalls self\<rparr>" blocked t rest] assms by simp
next
  fix st :: RateLimiter and t :: real and clock
  assume "period st < t - startTime st"
  then show "completions st (t # clock)
               = completions (st\<lparr>calls := 0, startTime := t\<rparr>) (t # clock)"
    by (simp add: wait_iter_def Let_def)
qed

text \<open>
  A limiter of two calls per 60 seconds built at time 0: three calls at time 0, the third
  polling at 30 and 60 and returning at 61.
\<close>

theorem RateLimiter_window_and_burst_witness:
  "0 < maxCalls (RateLimiter_init 2 60 0) \<and> 0 \<le> period (RateLimiter_init 2 60 0)
   \<and> calls (RateLimiter_init 2 60 0) = 0
   \<and> completions (RateLimiter_init 2 60 0) [0, 0, 0, 30, 60, 61, 61, 61, 200] = [0, 0, 61, 61, 200]
   \<and> int (length (window_completions (RateLimiter_init 2 60 0) [0, 0, 0, 30, 60, 61, 61, 61, 200])) \<le> 2
   \<and> wait ((RateLimiter_init 2 60 0)\<lparr>calls := 2\<rparr>) [0, 30, 60] = None
   \<and> wait ((RateLimiter_init 2 60 0)\<lparr>calls := 2\<rparr>) [0, 30, 60, 61, 62]
       = Some (\<lparr>maxCalls = 2, period = 60, calls = 1, startTime = 61\<rparr>, 61, [62])"
  using RateLimiter_window_and_burst [of "RateLimiter_init 2 60 0"]
  by (simp add: RateLimiter_init_def wait_iter_def window_completions_def)

section \<open>The HTTP status in \<open>get_data\<close>\<close>

lemma get_data_None:
  "get_data self clock (Inr response) = None
     \<longleftrightarrow> (\<exists>l. rateLimiter self = Some l \<and> wait l clock = None)"
  by (cases "rateLimiter self") (auto simp: get_data_def split: option.splits)

lemma get_data_Some:
  assumes "get_data self clock (Inr response) = Some (self', clock', res)"
  shows "res = (if status_code response \<noteq> 200 then Inr None
                else (case json_body response of Inl e \<Rightarrow> Inl e | Inr j \<Rightarrow> Inr (Some j)))"
proof (cases "rateLimiter self")
  case None
  then show ?thesis using assms unfolding get_data_def by auto
next
  case (Some l)
  show ?thesis
  proof (cases "wait l clock")
    case None
    then show ?thesis using assms Some unfolding get_data_def by simp
  next
    case (Some w)
    obtain l' t c where w: "w = (l', t, c)" by (cases w) auto
    show ?thesis using assms \<open>rateLimiter self = Some l\<close> Some w unfolding get_data_def by auto
  qed
qed

text \<open>
  C8 (as amended). \<open>get_data\<close> fails to return only when its limiter keeps it waiting.
  When it returns for a response whose status code is not 200, whatever the body, it
  returns \<open>None\<close> and raises nothing. For a response of status 200 whose body is JSON it
  returns the parsed body, and for a response of status 200 whose body is not JSON it
  raises the exception of \<open>response.json()\<close>.
\<close>

theorem get_data_status:
  "(get_data self clock (Inr response) = None
      \<longleftrightarrow> (\<exists>l. rateLimiter self = Some l \<and> wait l clock = None))
   \<and> (\<forall>self' clock' res.
         get_data self clock (Inr response) = Some (self', clock', res) \<longrightarrow>
           (status_code response \<noteq> 200 \<longrightarrow> res = Inr None)
         \<and> (\<forall>j. status_code response = 200 \<and> json_body response = Inr j \<longrightarrow> res = Inr (Some j))
         \<and> (\<forall>e. status_code response = 200 \<and> json_body response = Inl e \<longrightarrow> res = Inl e))"
proof (intro conjI allI impI)
  show "get_data self clock (Inr response) = None
          \<longleftrightarrow> (\<exists>l. rateLimiter self = Some l \<and> wait l clock = None)"
    by (rule get_data_None)
next
  fix self' clock' res
  assume g: "get_data self clock (Inr response) = Some (self', clock', res)"
    and s: "status_code response \<noteq> 200"
  show "res = Inr None" using get_data_Some [OF g] s by simp
next
  fix self' clock' res j
  assume g: "get_data self clock (Inr response) = Some (self', clock', res)"
    and s: "status_code response = 200 \<and> json_body response = Inr j"
  show "res = Inr (Some j)" using get_data_Some [OF g] s by simp
next
  fix self' clock' res e
  assume g: "get_data self clock (Inr response) = Some (self', clock', res)"
    and s: "status_code response = 200 \<and> json_body response = Inl e"
  show "res = Inl e" using get_data_Some [OF g] s by simp
qed

text \<open>A response of status 404, and one of status 200 with a JSON body.\<close>

theorem get_data_status_witness:
  "get_data limited_client [1] (Inr \<lparr>status_code = 404, json_body = Inr ''{}''\<rparr>)
     = Some (\<lparr>rateLimiter = Some \<lparr>maxCalls = 10, period = 60, calls = 1, startTime = 0\<rparr>\<rparr>, [],
             Inr None)
   \<and> get_data limited_client [1] (Inr \<lparr>status_code = 200, json_body = Inr ''{}''\<rparr>)
     = Some (\<lparr>rateLimiter = Some \<lparr>maxCalls = 10, period = 60, calls = 1, startTime = 0\<rparr>\<rparr>, [],
             Inr (Some ''{}''))"
proof -
  let ?c = "\<lparr>rateLimiter = Some \<lparr>maxCalls = 10, period = 60, calls = 1, startTime = 0\<rparr>\<rparr>"
  let ?r404 = "\<lparr>status_code = 404, json_body = (Inr ''{}'' :: py_error + string)\<rparr>"
  let ?r200 = "\<lparr>status_code = 200, json_body = (Inr ''{}'' :: py_error + string)\<rparr>"
  have w: "wait (RateLimiter_init 10 60 0) [1]
             = Some (\<lparr>maxCalls = 10, period = 60, calls = 1, startTime = 0\<rparr>, 1, [])"
    by (simp add: RateLimiter_init_def wait_iter_def)
  have n404: "get_data limited_client [1] (Inr ?r404) \<noteq> None"
    using get_data_status [of limited_client "[1]" ?r404] w by (simp add: limited_client_def)
  then obtain s c res where g404: "get_data limited_client [1] (Inr ?r404) = Some (s, c, res)"
    by (cases "get_data limited_client [1] (Inr ?r404)") auto
  have sc404: "s = ?c \<and> c = []"
    using g404 w by (simp add: get_data_def limited_client_def)
  have res404: "res = Inr None"
    using get_data_status [of limited_client "[1]" ?r404] g404 by simp
  have n200: "get_data limited_client [1] (Inr ?r200) \<noteq> None"
    using get_data_status [of limited_client "[1]" ?r200] w by (simp add: limited_client_def)
  then obtain s' c' res' where g200: "get_data limited_client [1] (Inr ?r200) = Some (s', c', res')"
    by (cases "get_data limited_client [1] (Inr ?r200)") auto
  have sc200: "s' = ?c \<and> c' = []"
    using g200 w by (simp add: get_data_def limited_client_def)
  have res200: "res' = Inr (Some ''{}'')"
    using get_data_status [of limited_client "[1]" ?r200] g200 by simp
  show ?thesis using g404 sc404 res404 g200 sc200 res200 by simp
qed

text \<open>
  C8 as stated fails for success statuses: a response of status 201 (a success status of
  HTTP) with the JSON body \<open>{}\<close> gives \<open>None\<close>, not the parsed body, since the code tests
  \<open>status_code != 200\<close>; and a response of status 200 whose body is not JSON gives no
  parsed body either: \<open>get_data\<close> raises the decode error.
\<close>

theorem get_data_success_counterexample:
  "get_data limited_client [1] (Inr \<lparr>status_code = 201, json_body = Inr ''{}''\<rparr>)
     = Some (\<lparr>rateLimiter = Some \<lparr>maxCalls = 10, period = 60, calls = 1, startTime = 0\<rparr>\<rparr>, [],
             Inr None)
   \<and> get_data limited_client [1]
         (Inr \<lparr>status_code = 200, json_body = (Inl JSONDecodeError :: py_error + string)\<rparr>)
     = Some (\<lparr>rateLimiter = Some \<lparr>maxCalls = 10, period = 60, calls = 1, startTime = 0\<rparr>\<rparr>, [],
             Inl JSONDecodeError)"
  by (simp add: get_data_def limited_client_def RateLimiter_init_def wait_iter_def)

end
